theory Spec2Isabelle
  imports Complex_Main "HOL-Library.Word"
begin

section \<open>JavaScript values and JSON text\<close>

text \<open>
  The server of \<^verbatim>\<open>node/custom_llm/custom_llm.js\<close> receives a JSON request body, calls an
  upstream chat-completion client and writes Server-Sent-Events. The values it handles are
  JavaScript values as they come out of a JSON parser, plus \<^verbatim>\<open>undefined\<close> for an absent
  field. A string is the sequence of its UTF-8 bytes. A number is an integer of magnitude
  below \<open>10 ^ 21\<close>, the range in which \<^verbatim>\<open>JSON.stringify\<close> prints plain digits; other
  numbers are not represented, and no property below reads a number of a request or of an
  upstream chunk.
\<close>

datatype json =
    JUndefined
  | JNull
  | JBool bool
  | JNum int
  | JStr string
  | JArr "json list"
  | JObj "(string \<times> json) list"

text \<open>JavaScript truthiness, as tested by \<^verbatim>\<open>!x\<close> and \<^verbatim>\<open>x ? a : b\<close>.\<close>

fun truthy :: "json \<Rightarrow> bool" where
  "truthy JUndefined = False"
| "truthy JNull = False"
| "truthy (JBool b) = b"
| "truthy (JNum n) = (n \<noteq> 0)"
| "truthy (JStr s) = (s \<noteq> [])"
| "truthy (JArr xs) = True"
| "truthy (JObj kvs) = True"

text \<open>A request body is an object: a field that is absent reads as \<^verbatim>\<open>undefined\<close>.\<close>

type_synonym request_body = "string \<rightharpoonup> json"

definition field :: "request_body \<Rightarrow> string \<Rightarrow> json" where
  "field b k = (case b k of None \<Rightarrow> JUndefined | Some v \<Rightarrow> v)"

text \<open>A destructuring default \<^verbatim>\<open>{ x = d } = obj\<close> applies only when the field is undefined.\<close>

definition dflt :: "json \<Rightarrow> json \<Rightarrow> json" where
  "dflt v d = (if v = JUndefined then d else v)"

subsection \<open>\<^verbatim>\<open>JSON.stringify\<close>\<close>

fun intercalate :: "string \<Rightarrow> string list \<Rightarrow> string" where
  "intercalate sep [] = []"
| "intercalate sep [x] = x"
| "intercalate sep (x # y # ys) = x @ sep @ intercalate sep (y # ys)"

fun digits :: "nat \<Rightarrow> string" where
  "digits n = (if n < 10 then [char_of (48 + n)] else digits (n div 10) @ [char_of (48 + n mod 10)])"

declare digits.simps [simp del]

definition hex_digit :: "nat \<Rightarrow> char" where
  "hex_digit n = (if n < 10 then char_of (48 + n) else char_of (87 + n))"

text \<open>Escaping of one character inside a JSON string literal.\<close>

definition escape_char :: "char \<Rightarrow> string" where
  "escape_char c =
     (if c = CHR 0x22 then [CHR 0x5C, CHR 0x22]
      else if c = CHR 0x5C then [CHR 0x5C, CHR 0x5C]
      else if c = CHR 0x08 then [CHR 0x5C, CHR ''b'']
      else if c = CHR 0x0C then [CHR 0x5C, CHR ''f'']
      else if c = CHR 0x0A then [CHR 0x5C, CHR ''n'']
      else if c = CHR 0x0D then [CHR 0x5C, CHR ''r'']
      else if c = CHR 0x09 then [CHR 0x5C, CHR ''t'']
      else if (of_char c :: nat) < 32 then
        [CHR 0x5C, CHR ''u'', CHR ''0'', CHR ''0'',
         hex_digit ((of_char c :: nat) div 16), hex_digit ((of_char c :: nat) mod 16)]
      else [c])"

definition quote :: "string \<Rightarrow> string" where
  "quote s = CHR 0x22 # concat (map escape_char s) @ [CHR 0x22]"

text \<open>
  An object member whose value is \<^verbatim>\<open>undefined\<close> is left out; an array element that is
  \<^verbatim>\<open>undefined\<close> prints as \<^verbatim>\<open>null\<close>; at top level a template literal prints
  \<^verbatim>\<open>undefined\<close>.
\<close>

fun JSON_stringify :: "json \<Rightarrow> string" where
  "JSON_stringify JUndefined = ''undefined''"
| "JSON_stringify JNull = ''null''"
| "JSON_stringify (JBool b) = (if b then ''true'' else ''false'')"
| "JSON_stringify (JNum n) = (if n < 0 then ''-'' @ digits (nat (- n)) else digits (nat n))"
| "JSON_stringify (JStr s) = quote s"
| "JSON_stringify (JArr xs) =
     ''['' @ intercalate '',''
        (map (\<lambda>x. if x = JUndefined then ''null'' else JSON_stringify x) xs) @ '']''"
| "JSON_stringify (JObj kvs) =
     ''{'' @ intercalate '',''
        (map (\<lambda>kv. quote (fst kv) @ '':'' @ JSON_stringify (snd kv))
             (filter (\<lambda>kv. snd kv \<noteq> JUndefined) kvs)) @ ''}''"

section \<open>The response object and the collaborators\<close>

text \<open>An exception value: \<^verbatim>\<open>error.message\<close> and \<^verbatim>\<open>error.stack\<close>.\<close>

record js_error =
  message :: string
  stack :: "string option"

text \<open>The argument of \<^verbatim>\<open>openai.chat.completions.create\<close>.\<close>

record create_params =
  p_model :: json
  p_messages :: json
  p_tools :: json
  p_tool_choice :: json
  p_response_format :: json
  p_stream :: bool

text \<open>
  An opened upstream stream: the chunks the async iterator yields, in order, and how the
  iteration finishes (\<open>None\<close>: clean end; \<open>Some e\<close>: the iterator throws \<open>e\<close>).
\<close>

datatype completion = Completion "json list" "js_error option"

type_synonym byte = "8 word"

text \<open>
  Everything a handler takes from outside: the upstream client, the file system, and the
  successive results of \<^verbatim>\<open>randomUUID()\<close> and \<^verbatim>\<open>Math.random()\<close>. A random number is a
  rational here; \<^verbatim>\<open>Math.random()\<close> returns a double in \<open>[0, 1)\<close>. The handlers
  multiply it by 256, which is exact on doubles, and by 3, where the rounding of the double
  product can move the floor at a boundary from one index to the next, never out of
  \<open>{0, 1, 2}\<close>.
\<close>

record env =
  openai_create :: "create_params \<Rightarrow> js_error + completion"
  readFile_utf8 :: "string \<Rightarrow> js_error + string"
  readFile_raw :: "string \<Rightarrow> js_error + byte list"
  uuids :: "nat \<Rightarrow> string"
  randoms :: "nat \<Rightarrow> rat"

text \<open>What a handler does that is visible from outside, in program order.\<close>

datatype action =
    Wrote string
  | Retrieved json
  | Created create_params

text \<open>
  The Express response \<^verbatim>\<open>res\<close>, the log of actions, and how many UUIDs and random numbers
  have been drawn. \<open>body\<close> holds the strings handed to \<^verbatim>\<open>res.write\<close> and \<^verbatim>\<open>res.json\<close>.
\<close>

record state =
  statusCode :: nat
  headers :: "string \<rightharpoonup> string"
  headersSent :: bool
  body :: "string list"
  ended :: bool
  log :: "action list"
  n_uuid :: nat
  n_rand :: nat

definition init_state :: state where
  "init_state = \<lparr>statusCode = 200, headers = Map.empty, headersSent = False, body = [],
     ended = False, log = [], n_uuid = 0, n_rand = 0\<rparr>"

definition res_status :: "nat \<Rightarrow> state \<Rightarrow> state" where
  "res_status c s = s\<lparr>statusCode := c\<rparr>"

text \<open>\<^verbatim>\<open>res.setHeader\<close> stages a header; nothing is sent yet.\<close>

definition res_setHeader :: "string \<Rightarrow> string \<Rightarrow> state \<Rightarrow> state" where
  "res_setHeader k v s = s\<lparr>headers := (headers s)(k \<mapsto> v)\<rparr>"

text \<open>
  \<^verbatim>\<open>res.json\<close> sets the content type \<^verbatim>\<open>application/json\<close> unless one is staged
  already, and hands the JSON text to \<^verbatim>\<open>res.send\<close>. For a string, \<^verbatim>\<open>res.send\<close> puts the
  charset \<^verbatim>\<open>utf-8\<close> on the content type (\<open>setCharset\<close>, here for a type without
  parameters, as the two of this server are), sends the head and the body and ends the
  response.
\<close>

definition setCharset :: "string \<Rightarrow> string" where
  "setCharset type = type @ ''; charset=utf-8''"

definition res_json :: "json \<Rightarrow> state \<Rightarrow> state" where
  "res_json j s =
     s\<lparr>headers := (headers s)(''Content-Type'' \<mapsto>
                      setCharset (case headers s ''Content-Type'' of
                                    None \<Rightarrow> ''application/json''
                                  | Some type \<Rightarrow> type)),
       headersSent := True, body := body s @ [JSON_stringify j], ended := True\<rparr>"

text \<open>The first \<^verbatim>\<open>res.write\<close> sends the head.\<close>

definition res_write :: "string \<Rightarrow> state \<Rightarrow> state" where
  "res_write str s = s\<lparr>headersSent := True, body := body s @ [str], log := log s @ [Wrote str]\<rparr>"

definition res_end :: "state \<Rightarrow> state" where
  "res_end s = s\<lparr>headersSent := True, ended := True\<rparr>"

definition randomUUID :: "env \<Rightarrow> state \<Rightarrow> string \<times> state" where
  "randomUUID e s = (uuids e (n_uuid s), s\<lparr>n_uuid := n_uuid s + 1\<rparr>)"

definition Math_random :: "env \<Rightarrow> state \<Rightarrow> rat \<times> state" where
  "Math_random e s = (randoms e (n_rand s), s\<lparr>n_rand := n_rand s + 1\<rparr>)"

section \<open>The handlers\<close>

text \<open>The template \<^verbatim>\<open>`data: ${payload}\n\n`\<close>.\<close>

definition sse :: "string \<Rightarrow> string" where
  "sse payload = ''data: '' @ payload @ ''\<newline>\<newline>''"

definition set_sse_headers :: "state \<Rightarrow> state" where
  "set_sse_headers s =
     res_setHeader ''Connection'' ''keep-alive''
       (res_setHeader ''Cache-Control'' ''no-cache''
         (res_setHeader ''Content-Type'' ''text/event-stream'' s))"

text \<open>The \<^verbatim>\<open>catch (error)\<close> block, the same in the three handlers.\<close>

definition handler_catch :: "js_error \<Rightarrow> state \<Rightarrow> state" where
  "handler_catch error s =
     (if \<not> headersSent s then
        res_json (JObj [(''detail'',
            JStr (message error @ ''\<newline>'' @ (case stack error of None \<Rightarrow> [] | Some st \<Rightarrow> st)))])
          (res_status 500 s)
      else
        res_end (res_write (sse ''[DONE]'')
          (res_write (sse (JSON_stringify (JObj [(''error'', JStr (message error))]))) s)))"

text \<open>The loop \<^verbatim>\<open>for await (const chunk of completion)\<close>, over the chunks that arrive.\<close>

fun forward_chunks :: "json list \<Rightarrow> state \<Rightarrow> state" where
  "forward_chunks [] s = s"
| "forward_chunks (chunk # rest) s = forward_chunks rest (res_write (sse (JSON_stringify chunk)) s)"

text \<open>From the call of the upstream client to the end of the \<^verbatim>\<open>try\<close> block.\<close>

definition relay :: "env \<Rightarrow> create_params \<Rightarrow> state \<Rightarrow> state" where
  "relay e params s =
     (let s1 = s\<lparr>log := log s @ [Created params]\<rparr> in
      case openai_create e params of
        Inl error \<Rightarrow> handler_catch error s1
      | Inr (Completion chunks fin) \<Rightarrow>
          (let s2 = forward_chunks chunks s1 in
           case fin of
             Some error \<Rightarrow> handler_catch error s2
           | None \<Rightarrow> res_end (res_write (sse ''[DONE]'') s2)))"

definition reject :: "string \<Rightarrow> state \<Rightarrow> state" where
  "reject detail s = res_json (JObj [(''detail'', JStr detail)]) (res_status 400 s)"

definition make_params :: "json \<Rightarrow> json \<Rightarrow> json \<Rightarrow> json \<Rightarrow> json \<Rightarrow> create_params" where
  "make_params model messages tools tool_choice response_format =
     \<lparr>p_model = model,
      p_messages = messages,
      p_tools = (if truthy tools then tools else JUndefined),
      p_tool_choice = (if truthy tools \<and> truthy tool_choice then tool_choice else JUndefined),
      p_response_format = response_format,
      p_stream = True\<rparr>"

text \<open>
  \<^verbatim>\<open>app.post('/chat/completions', ...)\<close>. The fields \<^verbatim>\<open>modalities\<close>, \<^verbatim>\<open>audio\<close> and
  \<^verbatim>\<open>stream_options\<close> are taken from the body and never read, so they are left out.
\<close>

definition chat_completions :: "env \<Rightarrow> request_body \<Rightarrow> state \<Rightarrow> state" where
  "chat_completions e b s =
     (let model = dflt (field b ''model'') (JStr ''gpt-4o-mini'');
          messages = field b ''messages'';
          tools = field b ''tools'';
          tool_choice = field b ''tool_choice'';
          response_format = field b ''response_format'';
          stream = dflt (field b ''stream'') (JBool True)
      in if \<not> truthy messages then reject ''Missing messages in request body'' s
         else if \<not> truthy stream then reject ''chat completions require streaming'' s
         else relay e (make_params model messages tools tool_choice response_format)
                (set_sse_headers s))"

text \<open>\<^verbatim>\<open>performRagRetrieval\<close>: the retrieval is a stub that returns a fixed text.\<close>

definition performRagRetrieval :: "json \<Rightarrow> string" where
  "performRagRetrieval messages = ''This is relevant content retrieved from the knowledge base.''"

text \<open>
  The spread \<^verbatim>\<open>...messages\<close>: an array gives its elements, a string its characters, and
  any other value is not iterable (the stack trace of the \<^verbatim>\<open>TypeError\<close> is not modelled).
\<close>

definition spread :: "json \<Rightarrow> js_error + json list" where
  "spread v =
     (case v of
        JArr xs \<Rightarrow> Inr xs
      | JStr s \<Rightarrow> Inr (map (\<lambda>c. JStr [c]) s)
      | _ \<Rightarrow> Inl \<lparr>message = ''messages is not iterable'', stack = None\<rparr>)"

definition context_message :: "string \<Rightarrow> json" where
  "context_message context =
     JObj [(''role'', JStr ''system''),
           (''content'', JStr (''You have access to the following knowledge: '' @ context
                                @ ''. Answer questions using this data.''))]"

definition refactMessages :: "string \<Rightarrow> json \<Rightarrow> js_error + json list" where
  "refactMessages context messages =
     (case spread messages of
        Inl error \<Rightarrow> Inl error
      | Inr ms \<Rightarrow> Inr (context_message context # ms))"

definition waitingMessages :: "string list" where
  "waitingMessages =
     [''Just a moment, I'' @ [CHR 0x27] @ ''m thinking...'',
      ''Let me think about that for a second...'',
      ''Good question, let me find out...'']"

text \<open>An array read \<^verbatim>\<open>xs[i]\<close>: \<^verbatim>\<open>undefined\<close> outside the array.\<close>

definition js_index :: "string list \<Rightarrow> int \<Rightarrow> json" where
  "js_index xs i = (if 0 \<le> i \<and> i < int (length xs) then JStr (xs ! nat i) else JUndefined)"

definition waitingMessage :: "json \<Rightarrow> json" where
  "waitingMessage content =
     JObj [(''id'', JStr ''waiting_msg''),
           (''choices'', JArr [JObj [(''index'', JNum 0),
               (''delta'', JObj [(''role'', JStr ''assistant''), (''content'', content)]),
               (''finish_reason'', JNull)]])]"

text \<open>\<^verbatim>\<open>app.post('/rag/chat/completions', ...)\<close>\<close>

definition rag_chat_completions :: "env \<Rightarrow> request_body \<Rightarrow> state \<Rightarrow> state" where
  "rag_chat_completions e b s =
     (let model = dflt (field b ''model'') (JStr ''gpt-4'');
          messages = field b ''messages'';
          tools = field b ''tools'';
          tool_choice = field b ''tool_choice'';
          response_format = field b ''response_format'';
          stream = dflt (field b ''stream'') (JBool True)
      in if \<not> truthy messages then reject ''Missing messages in request body'' s
         else if \<not> truthy stream then reject ''chat completions require streaming'' s
         else
           (let s1 = set_sse_headers s;
                (r, s2) = Math_random e s1;
                content = js_index waitingMessages \<lfloor>r * rat_of_nat (length waitingMessages)\<rfloor>;
                s3 = res_write (sse (JSON_stringify (waitingMessage content))) s2;
                s4 = s3\<lparr>log := log s3 @ [Retrieved messages]\<rparr>;
                retrievedContext = performRagRetrieval messages
            in case refactMessages retrievedContext messages of
                 Inl error \<Rightarrow> handler_catch error s4
               | Inr ragMessages \<Rightarrow>
                   relay e (make_params model (JArr ragMessages) tools tool_choice response_format) s4))"

section \<open>The audio endpoint\<close>

subsection \<open>Base64\<close>

definition b64_char :: "nat \<Rightarrow> char" where
  "b64_char n =
     (if n < 26 then char_of (65 + n)
      else if n < 52 then char_of (71 + n)
      else if n < 62 then char_of (n - 4)
      else if n = 62 then CHR ''+'' else CHR ''/'')"

text \<open>\<^verbatim>\<open>buffer.toString('base64')\<close>: the standard alphabet, padded with \<^verbatim>\<open>=\<close>.\<close>

fun base64 :: "byte list \<Rightarrow> string" where
  "base64 [] = []"
| "base64 [a] =
     [b64_char (unat a div 4), b64_char (unat a mod 4 * 16), CHR ''='', CHR ''='']"
| "base64 [a, b] =
     [b64_char (unat a div 4), b64_char (unat a mod 4 * 16 + unat b div 16),
      b64_char (unat b mod 16 * 4), CHR ''='']"
| "base64 (a # b # c # rest) =
     [b64_char (unat a div 4), b64_char (unat a mod 4 * 16 + unat b div 16),
      b64_char (unat b mod 16 * 4 + unat c div 64), b64_char (unat c mod 64)] @ base64 rest"



subsection \<open>Reading the assets\<close>

text \<open>\<^verbatim>\<open>readTextFile\<close> logs a failure and throws it again.\<close>

definition readTextFile :: "env \<Rightarrow> string \<Rightarrow> js_error + string" where
  "readTextFile e filePath =
     (case readFile_utf8 e filePath of Inl error \<Rightarrow> Inl error | Inr content \<Rightarrow> Inr content)"

text \<open>
  JavaScript numbers are IEEE 754 doubles: every division and product is rounded to the
  nearest double, ties to even. A positive double is kept as a pair \<open>(m, e)\<close> that stands for
  \<open>m * 2 ^ e\<close>, with a significand \<open>m\<close> of 53 bits. Overflow and subnormal numbers are
  left out: they are out of reach of a sample rate and a duration in milliseconds.
\<close>

type_synonym double = "nat \<times> int"

text \<open>The number of binary digits of \<open>n\<close>.\<close>

fun bitlen :: "nat \<Rightarrow> nat" where
  "bitlen n = (if n = 0 then 0 else Suc (bitlen (n div 2)))"

declare bitlen.simps [simp del]

text \<open>The integer part of the binary logarithm of \<open>p / q\<close>, for positive \<open>p\<close> and \<open>q\<close>.\<close>

definition log2_floor :: "nat \<Rightarrow> nat \<Rightarrow> int" where
  "log2_floor p q =
     (let k = int (bitlen p) - int (bitlen q)
      in if (if 0 \<le> k then 2 ^ nat k * q \<le> p else q \<le> p * 2 ^ nat (- k)) then k else k - 1)"

text \<open>The integer nearest to \<open>n / d\<close>; a tie goes to the even one.\<close>

definition round_half_even :: "nat \<Rightarrow> nat \<Rightarrow> nat" where
  "round_half_even n d =
     (let f = n div d; r = n mod d
      in if 2 * r < d then f else if d < 2 * r then f + 1 else if even f then f else f + 1)"

text \<open>The double nearest to \<open>p / q\<close>.\<close>

definition to_double :: "nat \<Rightarrow> nat \<Rightarrow> double" where
  "to_double p q =
     (if p = 0 then (0, 0)
      else let e = log2_floor p q - 52
           in (round_half_even (p * 2 ^ nat (- e)) (q * 2 ^ nat e), e))"

text \<open>\<^verbatim>\<open>a / b\<close> and \<^verbatim>\<open>a * x\<close> for integers \<open>a\<close>, \<open>b\<close> and a double \<open>x\<close>; \<^verbatim>\<open>Math.floor\<close>.\<close>

definition js_div :: "nat \<Rightarrow> nat \<Rightarrow> double" where
  "js_div a b = to_double a b"

definition js_mul :: "nat \<Rightarrow> double \<Rightarrow> double" where
  "js_mul a x = to_double (a * fst x * 2 ^ nat (snd x)) (2 ^ nat (- snd x))"

definition Math_floor :: "double \<Rightarrow> nat" where
  "Math_floor x = fst x * 2 ^ nat (snd x) div 2 ^ nat (- snd x)"

text \<open>
  \<^verbatim>\<open>Math.floor(sampleRate * 2 * (durationMs / 1000))\<close>: the product \<^verbatim>\<open>sampleRate * 2\<close>
  of integers is exact, the quotient and the second product are rounded.
\<close>

definition chunkSize :: "nat \<Rightarrow> nat \<Rightarrow> nat" where
  "chunkSize sampleRate durationMs =
     Math_floor (js_mul (sampleRate * 2) (js_div durationMs 1000))"

text \<open>\<^verbatim>\<open>content.slice(i, j)\<close> for \<open>i \<le> j\<close>: the end is clamped to the length.\<close>

definition slice :: "'a list \<Rightarrow> nat \<Rightarrow> nat \<Rightarrow> 'a list" where
  "slice content i j = take (j - i) (drop i content)"

text \<open>
  The loop \<^verbatim>\<open>for (let i = 0; i < content.length; i += chunkSize)\<close> of \<^verbatim>\<open>readPCMFile\<close>.
  Nothing in it makes \<open>i\<close> grow when the chunk size is zero, so the loop is a partial
  function: \<open>None\<close> is a loop that never ends.
\<close>

partial_function (option) readPCM_loop ::
  "byte list \<Rightarrow> nat \<Rightarrow> nat \<Rightarrow> byte list list \<Rightarrow> byte list list option" where
  "readPCM_loop content csize i chunks =
     (if i < length content
      then readPCM_loop content csize (i + csize) (chunks @ [slice content i (i + csize)])
      else Some chunks)"

definition readPCMFile :: "env \<Rightarrow> string \<Rightarrow> nat \<Rightarrow> nat \<Rightarrow> (js_error + byte list list) option" where
  "readPCMFile e filePath sampleRate durationMs =
     (case readFile_raw e filePath of
        Inl error \<Rightarrow> Some (Inl error)
      | Inr content \<Rightarrow>
          map_option Inr (readPCM_loop content (chunkSize sampleRate durationMs) 0 []))"

subsection \<open>The handler\<close>

definition audio_message :: "string \<Rightarrow> string \<Rightarrow> string \<Rightarrow> string \<Rightarrow> json" where
  "audio_message ident audioId key val =
     JObj [(''id'', JStr ident),
           (''choices'', JArr [JObj [(''index'', JNum 0),
               (''delta'', JObj [(''audio'', JObj [(''id'', JStr audioId), (key, JStr val)])]),
               (''finish_reason'', JNull)]])]"

definition send_transcript :: "env \<Rightarrow> string \<Rightarrow> string \<Rightarrow> state \<Rightarrow> state" where
  "send_transcript e audioId transcript s =
     (let (ident, s1) = randomUUID e s
      in res_write (sse (JSON_stringify (audio_message ident audioId ''transcript'' transcript))) s1)"

definition send_audio :: "env \<Rightarrow> string \<Rightarrow> byte list \<Rightarrow> state \<Rightarrow> state" where
  "send_audio e audioId chunk s =
     (let (ident, s1) = randomUUID e s
      in res_write (sse (JSON_stringify (audio_message ident audioId ''data'' (base64 chunk)))) s1)"

text \<open>The loop \<^verbatim>\<open>for (const chunk of audioChunks)\<close>; the delay between chunks is not modelled.\<close>

fun send_chunks :: "env \<Rightarrow> string \<Rightarrow> byte list list \<Rightarrow> state \<Rightarrow> state" where
  "send_chunks e audioId [] s = s"
| "send_chunks e audioId (chunk # rest) s = send_chunks e audioId rest (send_audio e audioId chunk s)"

text \<open>\<^verbatim>\<open>Array(n).fill(0).map(() => Math.floor(Math.random() * 256))\<close>, as a buffer.\<close>

fun random_bytes :: "env \<Rightarrow> nat \<Rightarrow> state \<Rightarrow> byte list \<times> state" where
  "random_bytes e 0 s = ([], s)"
| "random_bytes e (Suc n) s =
     (let (r, s1) = Math_random e s;
          (bs, s2) = random_bytes e n s1
      in (word_of_int \<lfloor>r * 256\<rfloor> # bs, s2))"

text \<open>The loop \<^verbatim>\<open>for (let i = 0; i < 5; i++)\<close> of the fallback, by the rounds that remain.\<close>

fun send_simulated :: "env \<Rightarrow> string \<Rightarrow> nat \<Rightarrow> state \<Rightarrow> state" where
  "send_simulated e audioId 0 s = s"
| "send_simulated e audioId (Suc n) s =
     (let (randomData, s1) = random_bytes e 40 s
      in send_simulated e audioId n (send_audio e audioId randomData s1))"

definition simulatedTranscript :: string where
  "simulatedTranscript =
     ''This is a simulated audio response because actual audio files weren'' @ [CHR 0x27]
       @ ''t found.''"

text \<open>The inner \<^verbatim>\<open>catch\<close> block: the simulated response.\<close>

definition audio_fallback :: "env \<Rightarrow> state \<Rightarrow> state" where
  "audio_fallback e s =
     (let (audioId, s1) = randomUUID e s
      in send_simulated e audioId 5 (send_transcript e audioId simulatedTranscript s1))"

text \<open>The inner \<^verbatim>\<open>try\<close> block after both assets have been read.\<close>

definition audio_stream :: "env \<Rightarrow> string \<Rightarrow> byte list list \<Rightarrow> state \<Rightarrow> state" where
  "audio_stream e textContent audioChunks s =
     (let (audioId, s1) = randomUUID e s
      in send_chunks e audioId audioChunks (send_transcript e audioId textContent s1))"

definition finish :: "state \<Rightarrow> state" where
  "finish s = res_end (res_write (sse ''[DONE]'') s)"

text \<open>
  \<^verbatim>\<open>app.post('/audio/chat/completions', ...)\<close>. The result is \<open>None\<close> when the handler
  never returns. Every failure of the inner \<^verbatim>\<open>try\<close> block is taken by the inner
  \<^verbatim>\<open>catch\<close>, and nothing after it fails, so the outer \<^verbatim>\<open>catch\<close> is never entered.
\<close>

definition audio_chat_completions :: "env \<Rightarrow> request_body \<Rightarrow> state \<Rightarrow> state option" where
  "audio_chat_completions e b s =
     (let messages = field b ''messages'';
          stream = dflt (field b ''stream'') (JBool True)
      in if \<not> truthy messages then Some (reject ''Missing messages in request body'' s)
         else if \<not> truthy stream then Some (reject ''chat completions require streaming'' s)
         else
           (let s1 = set_sse_headers s;
                textFilePath = ''./file.txt'';
                pcmFilePath = ''./file.pcm'';
                sampleRate = 16000;
                durationMs = 40
            in case readTextFile e textFilePath of
                 Inl error \<Rightarrow> Some (finish (audio_fallback e s1))
               | Inr textContent \<Rightarrow>
                   (case readPCMFile e pcmFilePath sampleRate durationMs of
                      None \<Rightarrow> None
                    | Some (Inl error) \<Rightarrow> Some (finish (audio_fallback e s1))
                    | Some (Inr audioChunks) \<Rightarrow>
                        Some (finish (audio_stream e textContent audioChunks s1)))))"

section \<open>Vocabulary of the properties\<close>

text \<open>A request passes validation: both early returns of a handler are skipped.\<close>

definition valid :: "request_body \<Rightarrow> bool" where
  "valid b = (truthy (field b ''messages'') \<and> truthy (dflt (field b ''stream'') (JBool True)))"

text \<open>The object literal that \<^verbatim>\<open>/chat/completions\<close> hands to the upstream client.\<close>

definition chat_request :: "request_body \<Rightarrow> create_params" where
  "chat_request b =
     make_params (dflt (field b ''model'') (JStr ''gpt-4o-mini'')) (field b ''messages'')
       (field b ''tools'') (field b ''tool_choice'') (field b ''response_format'')"

text \<open>The one that \<^verbatim>\<open>/rag/chat/completions\<close> hands over, for the augmented messages.\<close>

definition rag_request :: "request_body \<Rightarrow> json list \<Rightarrow> create_params" where
  "rag_request b ragMessages =
     make_params (dflt (field b ''model'') (JStr ''gpt-4'')) (JArr ragMessages)
       (field b ''tools'') (field b ''tool_choice'') (field b ''response_format'')"

text \<open>The two events every stream can end with.\<close>

definition done_event :: string where
  "done_event = sse ''[DONE]''"

definition error_event :: "js_error \<Rightarrow> string" where
  "error_event error = sse (JSON_stringify (JObj [(''error'', JStr (message error))]))"

definition chunk_event :: "json \<Rightarrow> string" where
  "chunk_event chunk = sse (JSON_stringify chunk)"

text \<open>
  How the upstream call of \<^verbatim>\<open>/chat/completions\<close> goes for a request: the error it fails
  with, when opening or while iterating (\<open>None\<close>: it ends cleanly), and the chunks that
  arrive before.
\<close>

definition chat_failure :: "env \<Rightarrow> request_body \<Rightarrow> js_error option" where
  "chat_failure e b =
     (case openai_create e (chat_request b) of
        Inl error \<Rightarrow> Some error
      | Inr (Completion chunks fin) \<Rightarrow> fin)"

definition chat_forwarded :: "env \<Rightarrow> request_body \<Rightarrow> json list" where
  "chat_forwarded e b =
     (case openai_create e (chat_request b) of
        Inl error \<Rightarrow> []
      | Inr (Completion chunks fin) \<Rightarrow> chunks)"

text \<open>
  The same for \<^verbatim>\<open>/rag/chat/completions\<close>, where building the augmented messages can
  fail as well.
\<close>

definition rag_failure :: "env \<Rightarrow> request_body \<Rightarrow> js_error option" where
  "rag_failure e b =
     (case refactMessages (performRagRetrieval (field b ''messages'')) (field b ''messages'') of
        Inl error \<Rightarrow> Some error
      | Inr ragMessages \<Rightarrow>
          (case openai_create e (rag_request b ragMessages) of
             Inl error \<Rightarrow> Some error
           | Inr (Completion chunks fin) \<Rightarrow> fin))"

text \<open>The body of the answer with status 500.\<close>

definition error_detail :: "js_error \<Rightarrow> string" where
  "error_detail error =
     JSON_stringify (JObj [(''detail'',
        JStr (message error @ ''\<newline>'' @ (case stack error of None \<Rightarrow> [] | Some st \<Rightarrow> st)))])"

text \<open>The upstream calls a handler made, in order.\<close>

fun created :: "action list \<Rightarrow> create_params list" where
  "created [] = []"
| "created (Created p # as) = p # created as"
| "created (a # as) = created as"

text \<open>Reading a member of an object and an element of an array.\<close>

fun member :: "json \<Rightarrow> string \<Rightarrow> json" where
  "member (JObj kvs) k = (case map_of kvs k of None \<Rightarrow> JUndefined | Some v \<Rightarrow> v)"
| "member j k = JUndefined"

fun element :: "json \<Rightarrow> nat \<Rightarrow> json" where
  "element (JArr xs) i = (if i < length xs then xs ! i else JUndefined)"
| "element j i = JUndefined"

text \<open>
  A request turned down by validation: status 400, a JSON body with a \<^verbatim>\<open>detail\<close> member,
  no header of an event stream, nothing written with \<^verbatim>\<open>res.write\<close>.
\<close>

definition rejected :: "state \<Rightarrow> bool" where
  "rejected s =
     (statusCode s = 400
      \<and> (body s = [JSON_stringify (JObj [(''detail'', JStr ''Missing messages in request body'')])]
         \<or> body s = [JSON_stringify (JObj [(''detail'', JStr ''chat completions require streaming'')])])
      \<and> headers s ''Content-Type'' = Some ''application/json; charset=utf-8''
      \<and> headers s ''Cache-Control'' = None
      \<and> headers s ''Connection'' = None
      \<and> log s = []
      \<and> ended s)"

text \<open>
  An event stream, opened and closed: status 200, the three headers of the stream as they
  were staged, the head sent, at least one event written, the last one the sentinel, and the
  response ended.
\<close>

definition sse_open :: "state \<Rightarrow> bool" where
  "sse_open s =
     (statusCode s = 200
      \<and> headers s ''Content-Type'' = Some ''text/event-stream''
      \<and> headers s ''Cache-Control'' = Some ''no-cache''
      \<and> headers s ''Connection'' = Some ''keep-alive''
      \<and> headersSent s
      \<and> body s \<noteq> []
      \<and> last (body s) = done_event
      \<and> ended s)"

text \<open>The events of the audio endpoint, by the UUID of the event and the shared audio id.\<close>

definition transcript_event :: "string \<Rightarrow> string \<Rightarrow> string \<Rightarrow> string" where
  "transcript_event ident audioId transcript =
     sse (JSON_stringify (audio_message ident audioId ''transcript'' transcript))"

definition audio_event :: "string \<Rightarrow> string \<Rightarrow> string \<Rightarrow> string" where
  "audio_event ident audioId payload =
     sse (JSON_stringify (audio_message ident audioId ''data'' payload))"

text \<open>The buffer of the \<open>i\<close>-th round of the fallback: forty random bytes.\<close>

definition filler :: "env \<Rightarrow> nat \<Rightarrow> byte list" where
  "filler e i = map (\<lambda>j. word_of_int \<lfloor>randoms e (40 * i + j) * 256\<rfloor>) [0..<40]"

subsection \<open>Concrete requests and collaborators\<close>

definition demo_chunks :: "json list" where
  "demo_chunks = [JObj [(''id'', JStr ''1''), (''choices'', JArr [])],
                  JObj [(''id'', JStr ''2''), (''choices'', JArr [])]]"

definition demo_error :: js_error where
  "demo_error = \<lparr>message = ''Connection error.'', stack = Some ''Error: Connection error.''\<rparr>"

definition demo_messages :: "json list" where
  "demo_messages = [JObj [(''role'', JStr ''user''), (''content'', JStr ''hi'')]]"

text \<open>An upstream that streams two chunks; both assets are present.\<close>

definition demo_env :: env where
  "demo_env = \<lparr>openai_create = (\<lambda>p. Inr (Completion demo_chunks None)),
     readFile_utf8 = (\<lambda>p. Inr ''hello''),
     readFile_raw = (\<lambda>p. Inr [1, 2, 3]),
     uuids = (\<lambda>n. ''uuid-'' @ digits n),
     randoms = (\<lambda>n. 1 / 2)\<rparr>"

text \<open>An upstream that cannot be opened; the assets are missing.\<close>

definition failing_env :: env where
  "failing_env = \<lparr>openai_create = (\<lambda>p. Inl demo_error),
     readFile_utf8 = (\<lambda>p. Inl \<lparr>message = ''ENOENT: no such file or directory'', stack = None\<rparr>),
     readFile_raw = (\<lambda>p. Inl \<lparr>message = ''ENOENT: no such file or directory'', stack = None\<rparr>),
     uuids = (\<lambda>n. ''uuid-'' @ digits n),
     randoms = (\<lambda>n. 1 / 2)\<rparr>"

text \<open>An upstream that breaks after the first chunk.\<close>

definition breaking_env :: env where
  "breaking_env = demo_env\<lparr>openai_create := (\<lambda>p. Inr (Completion (take 1 demo_chunks) (Some demo_error)))\<rparr>"

definition demo_body :: request_body where
  "demo_body = [''messages'' \<mapsto> JArr demo_messages, ''stream'' \<mapsto> JBool True]"

definition no_stream_body :: request_body where
  "no_stream_body = [''messages'' \<mapsto> JArr demo_messages]"

definition stream_false_body :: request_body where
  "stream_false_body = [''messages'' \<mapsto> JArr demo_messages, ''stream'' \<mapsto> JBool False]"

definition empty_tools_body :: request_body where
  "empty_tools_body = [''messages'' \<mapsto> JArr demo_messages, ''tools'' \<mapsto> JArr []]"

text \<open>A body whose \<^verbatim>\<open>messages\<close> field is there and holds \<^verbatim>\<open>null\<close>.\<close>

definition null_messages_body :: request_body where
  "null_messages_body = [''messages'' \<mapsto> JNull]"


section \<open>Facts about the relay loop and the JSON text\<close>

lemma body_forward_chunks:
  "body (forward_chunks cs s) = body s @ map (\<lambda>c. sse (JSON_stringify c)) cs"
  by (induction cs arbitrary: s) (simp_all add: res_write_def)

lemma log_forward_chunks:
  "log (forward_chunks cs s) = log s @ map (\<lambda>c. Wrote (sse (JSON_stringify c))) cs"
  by (induction cs arbitrary: s) (simp_all add: res_write_def)

lemma forward_chunks_unchanged:
  "statusCode (forward_chunks cs s) = statusCode s"
  "headers (forward_chunks cs s) = headers s"
  "ended (forward_chunks cs s) = ended s"
  "n_uuid (forward_chunks cs s) = n_uuid s"
  "n_rand (forward_chunks cs s) = n_rand s"
  by (induction cs arbitrary: s) (simp_all add: res_write_def)

lemma headersSent_forward_chunks:
  "headersSent (forward_chunks cs s) = (headersSent s \<or> cs \<noteq> [])"
  by (induction cs arbitrary: s) (auto simp add: res_write_def)







lemma rejected_reject:
  "d = ''Missing messages in request body'' \<or> d = ''chat completions require streaming''
   \<Longrightarrow> rejected (reject d init_state)"
  by (auto simp add: rejected_def reject_def res_json_def setCharset_def res_status_def
      init_state_def)

section \<open>Facts about the chunking loop\<close>

declare readPCM_loop.simps [code]

lemmas double_defs = chunkSize_def Math_floor_def js_mul_def js_div_def to_double_def
  round_half_even_def log2_floor_def Let_def bitlen.simps

lemma quotient_handler: "js_div 40 1000 = (5764607523034235, - 57)"
  by (simp add: js_div_def to_double_def round_half_even_def log2_floor_def Let_def bitlen.simps)

lemma chunkSize_handler: "chunkSize 16000 40 = 1280"
  by (simp add: double_defs)


lemma chunkSize_rounded: "chunkSize 1500 9 = 26"
  by (simp add: double_defs)

lemma ceil_div_step:
  assumes "0 < c" "0 < (n::nat)"
  shows "(n + c - 1) div c = Suc ((n - c + c - 1) div c)"
proof (cases "c \<le> n")
  case True
  then have "n + c - 1 = (n - c + c - 1) + c" using assms by simp
  then show ?thesis using assms by (metis div_add_self2 Suc_eq_plus1 less_numeral_extra(3))
next
  case False
  then have "n - c = 0" by simp
  moreover have "(n + c - 1) div c = 1"
    using assms False by (simp add: div_nat_eqI)
  ultimately show ?thesis using assms by simp
qed

lemma readPCM_loop_result:
  assumes "0 < c"
  shows "readPCM_loop content c i chunks
         = Some (chunks @ map (\<lambda>k. slice content (i + k * c) (i + (k + 1) * c))
                              [0..<(length content - i + c - 1) div c])"
proof (induction "length content - i" arbitrary: i chunks rule: less_induct)
  case less
  show ?case
  proof (cases "i < length content")
    case False
    then have "(length content - i + c - 1) div c = 0" using assms by simp
    then show ?thesis using False by (subst readPCM_loop.simps) simp
  next
    case True
    let ?n = "length content - i"
    have dec: "length content - (i + c) < ?n" using True assms by simp
    have cnt: "(?n + c - 1) div c = Suc ((length content - (i + c) + c - 1) div c)"
      using ceil_div_step [OF assms, of ?n] True by simp
    have "readPCM_loop content c i chunks
          = readPCM_loop content c (i + c) (chunks @ [slice content i (i + c)])"
      using True by (subst readPCM_loop.simps) simp
    also have "\<dots> = Some ((chunks @ [slice content i (i + c)])
         @ map (\<lambda>k. slice content (i + c + k * c) (i + c + (k + 1) * c))
               [0..<(length content - (i + c) + c - 1) div c])"
      by (rule less [OF dec])
    also have "\<dots> = Some (chunks @ map (\<lambda>k. slice content (i + k * c) (i + (k + 1) * c))
                              [0..<(?n + c - 1) div c])"
      unfolding cnt
      by (simp add: upt_conv_Cons map_Suc_upt [symmetric] ac_simps del: upt_Suc)
    finally show ?thesis .
  qed
qed


section \<open>Base64 decodes what it encodes\<close>










section \<open>Facts about the loops of the audio handler\<close>

lemma send_audio_simps:
  "body (send_audio e aid chunk s) = body s @ [audio_event (uuids e (n_uuid s)) aid (base64 chunk)]"
  "log (send_audio e aid chunk s) = log s @ [Wrote (audio_event (uuids e (n_uuid s)) aid (base64 chunk))]"
  "n_uuid (send_audio e aid chunk s) = n_uuid s + 1"
  "n_rand (send_audio e aid chunk s) = n_rand s"
  "statusCode (send_audio e aid chunk s) = statusCode s"
  "headers (send_audio e aid chunk s) = headers s"
  "ended (send_audio e aid chunk s) = ended s"
  by (simp_all add: send_audio_def randomUUID_def res_write_def audio_event_def)

lemma send_transcript_simps:
  "body (send_transcript e aid txt s) = body s @ [transcript_event (uuids e (n_uuid s)) aid txt]"
  "log (send_transcript e aid txt s) = log s @ [Wrote (transcript_event (uuids e (n_uuid s)) aid txt)]"
  "n_uuid (send_transcript e aid txt s) = n_uuid s + 1"
  "n_rand (send_transcript e aid txt s) = n_rand s"
  "statusCode (send_transcript e aid txt s) = statusCode s"
  "headers (send_transcript e aid txt s) = headers s"
  "ended (send_transcript e aid txt s) = ended s"
  by (simp_all add: send_transcript_def randomUUID_def res_write_def transcript_event_def)

lemma send_chunks_unchanged:
  "statusCode (send_chunks e aid cs s) = statusCode s"
  "headers (send_chunks e aid cs s) = headers s"
  "ended (send_chunks e aid cs s) = ended s"
  by (induction cs arbitrary: s) (simp_all add: send_audio_simps)

lemma body_send_chunks:
  "body (send_chunks e aid cs s)
   = body s @ map (\<lambda>i. audio_event (uuids e (n_uuid s + i)) aid (base64 (cs ! i))) [0..<length cs]"
proof (induction cs arbitrary: s)
  case Nil
  then show ?case by simp
next
  case (Cons c cs)
  show ?case
    by (simp add: Cons send_audio_simps upt_conv_Cons map_Suc_upt [symmetric] del: upt_Suc)
qed

lemma random_bytes_fst:
  "fst (random_bytes e n s) = map (\<lambda>j. word_of_int \<lfloor>randoms e (n_rand s + j) * 256\<rfloor>) [0..<n]"
  and random_bytes_snd: "snd (random_bytes e n s) = s\<lparr>n_rand := n_rand s + n\<rparr>"
proof (induction n arbitrary: s)
  case 0
  { case 1 show ?case by simp }
  { case 2 show ?case by simp }
next
  case (Suc n)
  { case 1 show ?case
      by (simp add: Suc Math_random_def split_def upt_conv_Cons map_Suc_upt [symmetric] del: upt_Suc) }
  { case 2 show ?case
      by (simp add: Suc Math_random_def split_def) }
qed

lemma send_simulated_unchanged:
  "statusCode (send_simulated e aid n s) = statusCode s"
  "headers (send_simulated e aid n s) = headers s"
  "ended (send_simulated e aid n s) = ended s"
  by (induction n arbitrary: s) (simp_all add: send_audio_simps split_def random_bytes_snd)

lemma body_send_simulated:
  "body (send_simulated e aid n s)
   = body s @ map (\<lambda>i. audio_event (uuids e (n_uuid s + i)) aid
        (base64 (map (\<lambda>j. word_of_int \<lfloor>randoms e (n_rand s + 40 * i + j) * 256\<rfloor>) [0..<40])))
      [0..<n]"
proof (induction n arbitrary: s)
  case 0
  then show ?case by simp
next
  case (Suc n)
  show ?case
    apply (simp add: Suc send_audio_simps split_def random_bytes_snd random_bytes_fst del: upt_Suc random_bytes.simps)
    apply (simp add: upt_conv_Cons [of 0 "Suc n"] map_Suc_upt [symmetric] add.assoc del: upt_Suc)
    done
qed



section \<open>Facts about the catch block and the relay\<close>

lemma created_append: "created (xs @ ys) = created xs @ created ys"
  by (induction xs rule: created.induct) simp_all

lemma created_Wrote: "created (map Wrote ws) = []"
  by (induction ws) simp_all

lemma handler_catch_sent:
  assumes "headersSent s"
  shows "body (handler_catch err s) = body s @ [error_event err, done_event]"
    "log (handler_catch err s) = log s @ [Wrote (error_event err), Wrote done_event]"
    "statusCode (handler_catch err s) = statusCode s"
    "headers (handler_catch err s) = headers s"
    "ended (handler_catch err s)"
    "headersSent (handler_catch err s)"
  using assms
  by (simp_all add: handler_catch_def res_end_def res_write_def error_event_def done_event_def)

lemma handler_catch_unsent:
  assumes "\<not> headersSent s"
  shows "body (handler_catch err s) = body s @ [error_detail err]"
    "log (handler_catch err s) = log s"
    "statusCode (handler_catch err s) = 500"
    "headers s ''Content-Type'' = Some v \<Longrightarrow>
       headers (handler_catch err s) = (headers s)(''Content-Type'' \<mapsto> setCharset v)"
    "ended (handler_catch err s)"
  using assms
  by (simp_all add: handler_catch_def res_json_def res_status_def error_detail_def)

lemma finish_simps:
  "body (finish s) = body s @ [done_event]"
  "log (finish s) = log s @ [Wrote done_event]"
  "statusCode (finish s) = statusCode s"
  "headers (finish s) = headers s"
  "ended (finish s)"
  "headersSent (finish s)"
  by (simp_all add: finish_def res_end_def res_write_def done_event_def)

lemma relay_eq:
  "relay e p s =
     (case openai_create e p of
        Inl err \<Rightarrow> handler_catch err (s\<lparr>log := log s @ [Created p]\<rparr>)
      | Inr (Completion chunks fin) \<Rightarrow>
          (case fin of
             Some err \<Rightarrow> handler_catch err (forward_chunks chunks (s\<lparr>log := log s @ [Created p]\<rparr>))
           | None \<Rightarrow> finish (forward_chunks chunks (s\<lparr>log := log s @ [Created p]\<rparr>))))"
  by (simp add: relay_def finish_def Let_def split: sum.splits completion.splits option.splits)

lemma log_relay_prefix: "\<exists>rest. log (relay e p s) = log s @ Created p # map Wrote rest"
proof (cases "openai_create e p")
  case (Inl err)
  show ?thesis
  proof (cases "headersSent s")
    case True
    then have "log (relay e p s) = log s @ Created p # map Wrote [error_event err, done_event]"
      by (simp add: relay_eq Inl handler_catch_sent)
    then show ?thesis by blast
  next
    case False
    then have "log (relay e p s) = log s @ Created p # map Wrote []"
      by (simp add: relay_eq Inl handler_catch_unsent)
    then show ?thesis by blast
  qed
next
  case (Inr c)
  obtain chunks fin where c: "c = Completion chunks fin" by (cases c)
  let ?s = "forward_chunks chunks (s\<lparr>log := log s @ [Created p]\<rparr>)"
  have l: "log ?s = log s @ Created p # map Wrote (map chunk_event chunks)"
    by (simp add: log_forward_chunks chunk_event_def comp_def)
  show ?thesis
  proof (cases fin)
    case None
    then have "log (relay e p s) = log s @ Created p # map Wrote (map chunk_event chunks @ [done_event])"
      by (simp add: relay_eq Inr c finish_simps l)
    then show ?thesis by blast
  next
    case (Some err)
    show ?thesis
    proof (cases "headersSent ?s")
      case True
      then have "log (relay e p s)
          = log s @ Created p # map Wrote (map chunk_event chunks @ [error_event err, done_event])"
        by (simp add: relay_eq Inr c Some handler_catch_sent l)
      then show ?thesis by blast
    next
      case False
      then have "log (relay e p s) = log s @ Created p # map Wrote (map chunk_event chunks)"
        by (simp add: relay_eq Inr c Some handler_catch_unsent l)
      then show ?thesis by blast
    qed
  qed
qed

lemma created_relay: "created (log (relay e p s)) = created (log s) @ [p]"
proof -
  obtain rest where "log (relay e p s) = log s @ Created p # map Wrote rest"
    using log_relay_prefix by blast
  then show ?thesis by (simp add: created_append created_Wrote)
qed

lemma sse_open_catch:
  assumes "headersSent t" "statusCode t = 200"
    "headers t ''Content-Type'' = Some ''text/event-stream''"
    "headers t ''Cache-Control'' = Some ''no-cache''"
    "headers t ''Connection'' = Some ''keep-alive''"
  shows "sse_open (handler_catch err t)"
  using assms by (simp add: sse_open_def handler_catch_sent)

lemma sse_open_finish:
  assumes "statusCode t = 200"
    "headers t ''Content-Type'' = Some ''text/event-stream''"
    "headers t ''Cache-Control'' = Some ''no-cache''"
    "headers t ''Connection'' = Some ''keep-alive''"
  shows "sse_open (finish t)"
  using assms by (simp add: sse_open_def finish_simps)

text \<open>
  The relay ends in an event stream when something has been written before it, or the
  upstream ends cleanly, or it yields a chunk before it fails.
\<close>

lemma relay_sse_open:
  assumes "statusCode s = 200" "headers s ''Content-Type'' = Some ''text/event-stream''"
    "headers s ''Cache-Control'' = Some ''no-cache''" "headers s ''Connection'' = Some ''keep-alive''"
    and ok: "headersSent s
      \<or> (\<exists>chunks fin. openai_create e p = Inr (Completion chunks fin)
                        \<and> (fin = None \<or> chunks \<noteq> []))"
  shows "sse_open (relay e p s)"
proof -
  let ?s1 = "s\<lparr>log := log s @ [Created p]\<rparr>"
  show ?thesis
  proof (cases "openai_create e p")
    case (Inl err)
    with ok have "headersSent ?s1" by simp
    then have "sse_open (handler_catch err ?s1)"
      using assms(1-4) by (intro sse_open_catch) simp_all
    then show ?thesis by (simp add: relay_eq Inl)
  next
    case (Inr c)
    obtain chunks fin where c: "c = Completion chunks fin" by (cases c)
    let ?s2 = "forward_chunks chunks ?s1"
    have s2: "statusCode ?s2 = 200" "headers ?s2 ''Content-Type'' = Some ''text/event-stream''"
      "headers ?s2 ''Cache-Control'' = Some ''no-cache''"
      "headers ?s2 ''Connection'' = Some ''keep-alive''"
      using assms(1-4) by (simp_all add: forward_chunks_unchanged)
    show ?thesis
    proof (cases fin)
      case None
      have "sse_open (finish ?s2)" using s2 by (rule sse_open_finish)
      then show ?thesis by (simp add: relay_eq Inr c None)
    next
      case (Some err)
      with ok Inr c have "headersSent s \<or> chunks \<noteq> []" by auto
      then have "headersSent ?s2" by (auto simp add: headersSent_forward_chunks)
      then have "sse_open (handler_catch err ?s2)" using s2 by (rule sse_open_catch)
      then show ?thesis by (simp add: relay_eq Inr c Some)
    qed
  qed
qed

lemma set_sse_headers_simps:
  "statusCode (set_sse_headers s) = statusCode s"
  "headers (set_sse_headers s) ''Content-Type'' = Some ''text/event-stream''"
  "headers (set_sse_headers s) ''Cache-Control'' = Some ''no-cache''"
  "headers (set_sse_headers s) ''Connection'' = Some ''keep-alive''"
  "body (set_sse_headers s) = body s"
  "log (set_sse_headers s) = log s"
  "headersSent (set_sse_headers s) = headersSent s"
  "ended (set_sse_headers s) = ended s"
  "n_uuid (set_sse_headers s) = n_uuid s"
  "n_rand (set_sse_headers s) = n_rand s"
  by (simp_all add: set_sse_headers_def res_setHeader_def)

lemma init_state_simps:
  "statusCode init_state = 200" "body init_state = []" "log init_state = []"
  "\<not> headersSent init_state" "\<not> ended init_state" "n_uuid init_state = 0" "n_rand init_state = 0"
  "headers init_state = Map.empty"
  by (simp_all add: init_state_def)

section \<open>The handlers on a request that passes validation\<close>

lemma chat_completions_valid:
  "valid b \<Longrightarrow> chat_completions e b s = relay e (chat_request b) (set_sse_headers s)"
  by (simp add: chat_completions_def valid_def chat_request_def Let_def)

lemma length_waitingMessages: "length waitingMessages = 3"
  by (simp add: waitingMessages_def)

lemma rag_completions_valid:
  assumes "valid b"
  shows "rag_chat_completions e b init_state =
     (let content = js_index waitingMessages \<lfloor>randoms e 0 * 3\<rfloor>;
          s3 = res_write (chunk_event (waitingMessage content))
                 ((set_sse_headers init_state)\<lparr>n_rand := 1\<rparr>);
          s4 = s3\<lparr>log := log s3 @ [Retrieved (field b ''messages'')]\<rparr>
      in case refactMessages (performRagRetrieval (field b ''messages'')) (field b ''messages'') of
           Inl err \<Rightarrow> handler_catch err s4
         | Inr ragMessages \<Rightarrow> relay e (rag_request b ragMessages) s4)"
  using assms
  by (simp add: rag_chat_completions_def valid_def rag_request_def Let_def Math_random_def
      chunk_event_def length_waitingMessages set_sse_headers_simps init_state_simps
      cong: sum.case_cong)

lemma readPCMFile_handler:
  "readPCMFile e path 16000 40 =
     (case readFile_raw e path of
        Inl err \<Rightarrow> Some (Inl err)
      | Inr content \<Rightarrow>
          Some (Inr (map (\<lambda>k. slice content (k * 1280) ((k + 1) * 1280))
                         [0..<(length content + 1279) div 1280])))"
  by (simp add: readPCMFile_def chunkSize_handler readPCM_loop_result add.commute
      split: sum.splits)

lemma audio_completions_valid:
  assumes "valid b"
  shows "audio_chat_completions e b init_state =
     (case readFile_utf8 e ''./file.txt'' of
        Inl err \<Rightarrow> Some (finish (audio_fallback e (set_sse_headers init_state)))
      | Inr textContent \<Rightarrow>
          (case readFile_raw e ''./file.pcm'' of
             Inl err \<Rightarrow> Some (finish (audio_fallback e (set_sse_headers init_state)))
           | Inr content \<Rightarrow>
               Some (finish (audio_stream e textContent
                 (map (\<lambda>k. slice content (k * 1280) ((k + 1) * 1280))
                      [0..<(length content + 1279) div 1280])
                 (set_sse_headers init_state)))))"
  using assms
  by (simp add: audio_chat_completions_def valid_def Let_def readTextFile_def readPCMFile_handler
      split: sum.splits)

lemma audio_fallback_simps:
  "body (audio_fallback e (set_sse_headers init_state))
     = transcript_event (uuids e 1) (uuids e 0) simulatedTranscript
       # map (\<lambda>i. audio_event (uuids e (i + 2)) (uuids e 0) (base64 (filler e i))) [0..<5]"
  "statusCode (audio_fallback e (set_sse_headers init_state)) = 200"
  "headers (audio_fallback e (set_sse_headers init_state)) = headers (set_sse_headers init_state)"
  by (simp_all add: audio_fallback_def randomUUID_def body_send_simulated send_simulated_unchanged
      send_transcript_simps set_sse_headers_simps init_state_simps filler_def add.commute
      del: upt_Suc)

lemma audio_stream_simps:
  "body (audio_stream e txt cs (set_sse_headers init_state))
     = transcript_event (uuids e 1) (uuids e 0) txt
       # map (\<lambda>i. audio_event (uuids e (i + 2)) (uuids e 0) (base64 (cs ! i))) [0..<length cs]"
  "statusCode (audio_stream e txt cs (set_sse_headers init_state)) = 200"
  "headers (audio_stream e txt cs (set_sse_headers init_state)) = headers (set_sse_headers init_state)"
  by (simp_all add: audio_stream_def randomUUID_def body_send_chunks send_chunks_unchanged
      send_transcript_simps set_sse_headers_simps init_state_simps add.commute
      del: upt_Suc)

lemma sse_open_audio:
  assumes "statusCode s = 200" "headers s = headers (set_sse_headers init_state)"
  shows "sse_open (finish s)"
  using assms by (intro sse_open_finish) (simp_all add: set_sse_headers_simps)


lemma valid_bodies:
  "valid demo_body" "valid no_stream_body" "valid empty_tools_body"
  by (simp_all add: valid_def demo_body_def no_stream_body_def empty_tools_body_def field_def dflt_def)

lemma waiting_index:
  assumes "0 \<le> r" "r < (1::rat)"
  shows "\<exists>k<3. js_index waitingMessages \<lfloor>r * 3\<rfloor> = JStr (waitingMessages ! k)"
proof -
  have lo: "0 \<le> \<lfloor>r * 3\<rfloor>" using assms by simp
  have "r * 3 < rat_of_int 3" using assms by simp
  then have hi: "\<lfloor>r * 3\<rfloor> < 3" by (simp only: floor_less_iff)
  have "nat \<lfloor>r * 3\<rfloor> < 3" using lo hi by linarith
  moreover have "js_index waitingMessages \<lfloor>r * 3\<rfloor> = JStr (waitingMessages ! nat \<lfloor>r * 3\<rfloor>)"
    using lo hi by (simp add: js_index_def length_waitingMessages)
  ultimately show ?thesis by blast
qed

lemma demo_outcomes:
  "chat_failure breaking_env demo_body = Some demo_error"
  "chat_forwarded breaking_env demo_body = [demo_chunks ! 0]"
  "chat_failure failing_env demo_body = Some demo_error"
  "chat_forwarded failing_env demo_body = []"
  "rag_failure failing_env demo_body = Some demo_error"
  by (simp_all add: chat_failure_def chat_forwarded_def rag_failure_def breaking_env_def
      failing_env_def demo_env_def demo_chunks_def demo_body_def field_def refactMessages_def
      spread_def)

section \<open>What the chunking operation returns, and where the relay ends\<close>



lemma chat_outcome_ok:
  assumes "chat_failure e b = None \<or> chat_forwarded e b \<noteq> []"
  shows "\<exists>chunks fin. openai_create e (chat_request b) = Inr (Completion chunks fin)
                      \<and> (fin = None \<or> chunks \<noteq> [])"
  using assms
  by (auto simp add: chat_failure_def chat_forwarded_def split: sum.splits completion.splits)

lemma not_rejected_relay: "statusCode (relay e p s) = statusCode s \<or> statusCode (relay e p s) = 500"
proof -
  have c: "statusCode (handler_catch err t) = statusCode t \<or> statusCode (handler_catch err t) = 500"
    for err t
    by (cases "headersSent t") (simp_all add: handler_catch_sent handler_catch_unsent)
  show ?thesis
  proof (cases "openai_create e p")
    case (Inl err)
    then show ?thesis using c [of err "s\<lparr>log := log s @ [Created p]\<rparr>"] by (simp add: relay_eq)
  next
    case (Inr c')
    obtain chunks fin where cf: "c' = Completion chunks fin" by (cases c')
    show ?thesis
    proof (cases fin)
      case None
      then show ?thesis by (simp add: relay_eq Inr cf finish_simps forward_chunks_unchanged)
    next
      case (Some err)
      then show ?thesis
        using c [of err "forward_chunks chunks (s\<lparr>log := log s @ [Created p]\<rparr>)"]
        by (simp add: relay_eq Inr cf forward_chunks_unchanged)
    qed
  qed
qed

section \<open>The claims\<close>



text \<open>
  C2, as amended. A request passes validation and something fails afterwards. When the
  failure comes after the first event has been written (on \<^verbatim>\<open>/chat/completions\<close>: the
  upstream iteration breaks after at least one chunk was forwarded; on
  \<^verbatim>\<open>/rag/chat/completions\<close>: any failure, since the waiting message is written first), the
  client gets one event \<^verbatim>\<open>{error: message}\<close>, then \<^verbatim>\<open>data: [DONE]\<close>, and the status stays
  200. When \<^verbatim>\<open>/chat/completions\<close> fails before anything was written (the upstream cannot be
  opened, or breaks before its first chunk), the answer is HTTP 500 with a JSON body
  \<^verbatim>\<open>{detail: ...}\<close>: \<^verbatim>\<open>res.setHeader\<close> has only staged the headers, and the catch block
  tests \<^verbatim>\<open>res.headersSent\<close>.
\<close>

theorem failure_in_band_once_written:
  assumes "valid b"
  shows "(chat_failure e b = Some err \<and> chat_forwarded e b \<noteq> [] \<longrightarrow>
            body (chat_completions e b init_state)
              = map chunk_event (chat_forwarded e b) @ [error_event err, done_event]
          \<and> statusCode (chat_completions e b init_state) = 200
          \<and> ended (chat_completions e b init_state))
       \<and> (chat_failure e b = Some err \<and> chat_forwarded e b = [] \<longrightarrow>
            body (chat_completions e b init_state) = [error_detail err]
          \<and> statusCode (chat_completions e b init_state) = 500
          \<and> ended (chat_completions e b init_state))
       \<and> (rag_failure e b = Some err \<longrightarrow>
            (\<exists>events. body (rag_chat_completions e b init_state)
                        = events @ [error_event err, done_event])
          \<and> statusCode (rag_chat_completions e b init_state) = 200
          \<and> ended (rag_chat_completions e b init_state))"
proof (intro conjI impI)
  let ?s0 = "set_sse_headers init_state"
  let ?s1 = "?s0\<lparr>log := log ?s0 @ [Created (chat_request b)]\<rparr>"
  have s1: "\<not> headersSent ?s1" "body ?s1 = []" "statusCode ?s1 = 200"
    by (simp_all add: set_sse_headers_simps init_state_simps)
  {
    assume a: "chat_failure e b = Some err \<and> chat_forwarded e b \<noteq> []"
    then obtain chunks where o: "openai_create e (chat_request b) = Inr (Completion chunks (Some err))"
      and ne: "chunks \<noteq> []" and fw: "chat_forwarded e b = chunks"
      by (auto simp add: chat_failure_def chat_forwarded_def split: sum.splits completion.splits)
    let ?s2 = "forward_chunks chunks ?s1"
    have sent: "headersSent ?s2" using ne by (simp add: headersSent_forward_chunks)
    have run: "chat_completions e b init_state = handler_catch err ?s2"
      by (simp add: chat_completions_valid [OF assms] relay_eq o)
    show "body (chat_completions e b init_state)
              = map chunk_event (chat_forwarded e b) @ [error_event err, done_event]"
      unfolding run fw using s1
      by (simp add: handler_catch_sent [OF sent] body_forward_chunks chunk_event_def)
    show "statusCode (chat_completions e b init_state) = 200"
      unfolding run using s1 by (simp add: handler_catch_sent [OF sent] forward_chunks_unchanged)
    show "ended (chat_completions e b init_state)"
      unfolding run by (simp add: handler_catch_sent [OF sent])
  }
  {
    assume a: "chat_failure e b = Some err \<and> chat_forwarded e b = []"
    then have o: "openai_create e (chat_request b) = Inl err
               \<or> openai_create e (chat_request b) = Inr (Completion [] (Some err))"
      by (auto simp add: chat_failure_def chat_forwarded_def split: sum.splits completion.splits)
    then have run: "chat_completions e b init_state = handler_catch err ?s1"
      by (auto simp add: chat_completions_valid [OF assms] relay_eq)
    show "body (chat_completions e b init_state) = [error_detail err]"
      unfolding run using s1 by (simp add: handler_catch_unsent)
    show "statusCode (chat_completions e b init_state) = 500"
      unfolding run using s1 by (simp add: handler_catch_unsent)
    show "ended (chat_completions e b init_state)"
      unfolding run using s1 by (simp add: handler_catch_unsent)
  }
  {
    assume a: "rag_failure e b = Some err"
    let ?m = "field b ''messages''"
    let ?s3 = "res_write (chunk_event (waitingMessage (js_index waitingMessages \<lfloor>randoms e 0 * 3\<rfloor>)))
                 (?s0\<lparr>n_rand := 1\<rparr>)"
    let ?s4 = "?s3\<lparr>log := log ?s3 @ [Retrieved ?m]\<rparr>"
    have s4: "headersSent ?s4" "statusCode ?s4 = 200"
      by (simp_all add: res_write_def set_sse_headers_simps init_state_simps)
    have "\<exists>t. rag_chat_completions e b init_state = handler_catch err t
              \<and> headersSent t \<and> statusCode t = 200"
    proof (cases "refactMessages (performRagRetrieval ?m) ?m")
      case (Inl err')
      with a have "err' = err" by (simp add: rag_failure_def)
      then have "rag_chat_completions e b init_state = handler_catch err ?s4"
        by (simp add: rag_completions_valid [OF assms] Let_def Inl)
      then show ?thesis using s4 by blast
    next
      case (Inr ms)
      let ?s5 = "?s4\<lparr>log := log ?s4 @ [Created (rag_request b ms)]\<rparr>"
      have s5: "headersSent ?s5" "statusCode ?s5 = 200" using s4 by simp_all
      from a Inr have o: "openai_create e (rag_request b ms) = Inl err
          \<or> (\<exists>chunks. openai_create e (rag_request b ms) = Inr (Completion chunks (Some err)))"
        by (auto simp add: rag_failure_def split: sum.splits completion.splits)
      then show ?thesis
      proof
        assume "openai_create e (rag_request b ms) = Inl err"
        then have "rag_chat_completions e b init_state = handler_catch err ?s5"
          by (simp add: rag_completions_valid [OF assms] Let_def Inr relay_eq)
        then show ?thesis using s5 by blast
      next
        assume "\<exists>chunks. openai_create e (rag_request b ms) = Inr (Completion chunks (Some err))"
        then obtain chunks where
          "openai_create e (rag_request b ms) = Inr (Completion chunks (Some err))" by blast
        then have "rag_chat_completions e b init_state
            = handler_catch err (forward_chunks chunks ?s5)"
          by (simp add: rag_completions_valid [OF assms] Let_def Inr relay_eq)
        moreover have "headersSent (forward_chunks chunks ?s5)"
          "statusCode (forward_chunks chunks ?s5) = 200"
          using s5 by (simp_all add: headersSent_forward_chunks forward_chunks_unchanged)
        ultimately show ?thesis by blast
      qed
    qed
    then obtain t where run: "rag_chat_completions e b init_state = handler_catch err t"
      and t: "headersSent t" "statusCode t = 200" by blast
    show "\<exists>events. body (rag_chat_completions e b init_state)
                        = events @ [error_event err, done_event]"
      unfolding run by (simp add: handler_catch_sent [OF t(1)])
    show "statusCode (rag_chat_completions e b init_state) = 200"
      unfolding run using t by (simp add: handler_catch_sent [OF t(1)])
    show "ended (rag_chat_completions e b init_state)"
      unfolding run by (simp add: handler_catch_sent [OF t(1)])
  }
qed

theorem failure_in_band_once_written_witness:
  "valid demo_body
   \<and> chat_failure breaking_env demo_body = Some demo_error
   \<and> chat_forwarded breaking_env demo_body \<noteq> []
   \<and> body (chat_completions breaking_env demo_body init_state)
       = [chunk_event (demo_chunks ! 0), error_event demo_error, done_event]
   \<and> chat_failure failing_env demo_body = Some demo_error
   \<and> chat_forwarded failing_env demo_body = []
   \<and> statusCode (chat_completions failing_env demo_body init_state) = 500
   \<and> rag_failure failing_env demo_body = Some demo_error
   \<and> statusCode (rag_chat_completions failing_env demo_body init_state) = 200"
  using failure_in_band_once_written [OF valid_bodies(1), of breaking_env demo_error]
    failure_in_band_once_written [OF valid_bodies(1), of failing_env demo_error]
  by (simp add: demo_outcomes valid_bodies)

text \<open>
  The claim as stated fails: the upstream of \<open>failing_env\<close> cannot be opened, and
  \<^verbatim>\<open>/chat/completions\<close> answers a valid request with status 500 and neither an error event
  nor the sentinel.
\<close>

theorem open_failure_is_http_500:
  "valid demo_body
   \<and> openai_create failing_env (chat_request demo_body) = Inl demo_error
   \<and> statusCode (chat_completions failing_env demo_body init_state) = 500
   \<and> body (chat_completions failing_env demo_body init_state) = [error_detail demo_error]
   \<and> error_event demo_error \<notin> set (body (chat_completions failing_env demo_body init_state))
   \<and> done_event \<notin> set (body (chat_completions failing_env demo_body init_state))"
proof -
  let ?s1 = "(set_sse_headers init_state)\<lparr>log := log (set_sse_headers init_state)
                @ [Created (chat_request demo_body)]\<rparr>"
  have o: "openai_create failing_env (chat_request demo_body) = Inl demo_error"
    by (simp add: failing_env_def)
  have s1: "\<not> headersSent ?s1" "body ?s1 = []"
    by (simp_all add: set_sse_headers_simps init_state_simps)
  have run: "chat_completions failing_env demo_body init_state = handler_catch demo_error ?s1"
    by (simp add: chat_completions_valid [OF valid_bodies(1)] relay_eq o)
  have b: "body (chat_completions failing_env demo_body init_state) = [error_detail demo_error]"
    "statusCode (chat_completions failing_env demo_body init_state) = 500"
    unfolding run using s1 by (simp_all add: handler_catch_unsent)
  have n: "error_event demo_error \<noteq> error_detail demo_error"
    "done_event \<noteq> error_detail demo_error"
    by (simp_all add: error_event_def error_detail_def done_event_def sse_def)
  show ?thesis using valid_bodies(1) o b n by simp
qed

text \<open>
  C3. A request whose body has no \<^verbatim>\<open>messages\<close> field, or whose \<^verbatim>\<open>stream\<close> field is
  \<^verbatim>\<open>false\<close>, is answered by each of the three endpoints with status 400 and a JSON body
  \<^verbatim>\<open>{detail: ...}\<close>; no header of an event stream is set and no event is written.
\<close>

theorem invalid_request_rejected:
  assumes "b ''messages'' = None \<or> b ''stream'' = Some (JBool False)"
  shows "rejected (chat_completions e b init_state)
       \<and> rejected (rag_chat_completions e b init_state)
       \<and> (\<exists>s. audio_chat_completions e b init_state = Some s \<and> rejected s)"
proof -
  have "\<not> truthy (field b ''messages'') \<or> \<not> truthy (dflt (field b ''stream'') (JBool True))"
    using assms by (auto simp add: field_def dflt_def)
  then show ?thesis
    by (auto simp add: chat_completions_def rag_chat_completions_def audio_chat_completions_def
        Let_def rejected_reject)
qed

theorem invalid_request_rejected_witness:
  "stream_false_body ''stream'' = Some (JBool False)
   \<and> rejected (chat_completions demo_env stream_false_body init_state)
   \<and> rejected (rag_chat_completions demo_env Map.empty init_state)
   \<and> Map.empty ''messages'' = (None :: json option)"
  using invalid_request_rejected [of stream_false_body demo_env]
    invalid_request_rejected [of Map.empty demo_env]
  by (simp add: stream_false_body_def)



text \<open>
  C5. On a valid request to \<^verbatim>\<open>/rag/chat/completions\<close> (with \<^verbatim>\<open>Math.random()\<close> in
  \<open>[0, 1)\<close>) the first action of the handler is to write the waiting message: an event whose
  delta has the role \<^verbatim>\<open>assistant\<close>, a content that is one of the three filler phrases, and
  a \<^verbatim>\<open>finish_reason\<close> of \<^verbatim>\<open>null\<close>. The retrieval comes second in the log, and the
  upstream call, if any, after it.
\<close>

theorem rag_waiting_message_first:
  assumes "valid b" and "0 \<le> randoms e 0" and "randoms e 0 < 1"
  shows "\<exists>k<3. \<exists>rest.
           log (rag_chat_completions e b init_state)
             = Wrote (chunk_event (waitingMessage (JStr (waitingMessages ! k))))
               # Retrieved (field b ''messages'') # rest
         \<and> hd (body (rag_chat_completions e b init_state))
             = chunk_event (waitingMessage (JStr (waitingMessages ! k)))
         \<and> member (member (element (member (waitingMessage (JStr (waitingMessages ! k)))
              ''choices'') 0) ''delta'') ''role'' = JStr ''assistant''
         \<and> member (member (element (member (waitingMessage (JStr (waitingMessages ! k)))
              ''choices'') 0) ''delta'') ''content'' = JStr (waitingMessages ! k)
         \<and> member (element (member (waitingMessage (JStr (waitingMessages ! k)))
              ''choices'') 0) ''finish_reason'' = JNull"
proof -
  obtain k where k: "k < 3"
    and c: "js_index waitingMessages \<lfloor>randoms e 0 * 3\<rfloor> = JStr (waitingMessages ! k)"
    using waiting_index [OF assms(2,3)] by blast
  let ?w = "chunk_event (waitingMessage (JStr (waitingMessages ! k)))"
  let ?m = "field b ''messages''"
  let ?s3 = "res_write ?w ((set_sse_headers init_state)\<lparr>n_rand := 1\<rparr>)"
  let ?s4 = "?s3\<lparr>log := log ?s3 @ [Retrieved ?m]\<rparr>"
  have s4: "log ?s4 = [Wrote ?w, Retrieved ?m]" "body ?s4 = [?w]" "headersSent ?s4"
    by (simp_all add: res_write_def set_sse_headers_simps init_state_simps)
  have "\<exists>rest more. log (rag_chat_completions e b init_state) = Wrote ?w # Retrieved ?m # rest
      \<and> body (rag_chat_completions e b init_state) = ?w # more"
  proof (cases "refactMessages (performRagRetrieval ?m) ?m")
    case (Inl err)
    then have "rag_chat_completions e b init_state = handler_catch err ?s4"
      by (simp add: rag_completions_valid [OF assms(1)] Let_def c)
    then show ?thesis using s4 by (simp add: handler_catch_sent)
  next
    case (Inr ms)
    let ?p = "rag_request b ms"
    let ?s5 = "?s4\<lparr>log := log ?s4 @ [Created ?p]\<rparr>"
    have run: "rag_chat_completions e b init_state = relay e ?p ?s4"
      using Inr by (simp add: rag_completions_valid [OF assms(1)] Let_def c)
    have s5: "headersSent ?s5" "body ?s5 = [?w]" using s4 by simp_all
    obtain rest where "log (relay e ?p ?s4) = log ?s4 @ Created ?p # map Wrote rest"
      using log_relay_prefix by blast
    then have l: "log (relay e ?p ?s4) = Wrote ?w # Retrieved ?m # Created ?p # map Wrote rest"
      using s4 by simp
    have "\<exists>more. body (relay e ?p ?s4) = ?w # more"
    proof (cases "openai_create e ?p")
      case (Inl err)
      then show ?thesis using s5 by (simp add: relay_eq handler_catch_sent)
    next
      case (Inr c)
      obtain chunks fin where cf: "c = Completion chunks fin" by (cases c)
      have f: "headersSent (forward_chunks chunks ?s5)"
        "body (forward_chunks chunks ?s5) = ?w # map (\<lambda>c. sse (JSON_stringify c)) chunks"
        using s5 by (simp_all add: headersSent_forward_chunks body_forward_chunks)
      show ?thesis
      proof (cases fin)
        case None
        then show ?thesis using f by (simp add: relay_eq Inr cf finish_simps)
      next
        case (Some err)
        then show ?thesis using f by (simp add: relay_eq Inr cf handler_catch_sent)
      qed
    qed
    then show ?thesis using l run by auto
  qed
  then obtain rest more where
    "log (rag_chat_completions e b init_state) = Wrote ?w # Retrieved ?m # rest"
    "body (rag_chat_completions e b init_state) = ?w # more" by blast
  moreover have "member (member (element (member (waitingMessage (JStr (waitingMessages ! k)))
              ''choices'') 0) ''delta'') ''role'' = JStr ''assistant''"
    "member (member (element (member (waitingMessage (JStr (waitingMessages ! k)))
              ''choices'') 0) ''delta'') ''content'' = JStr (waitingMessages ! k)"
    "member (element (member (waitingMessage (JStr (waitingMessages ! k)))
              ''choices'') 0) ''finish_reason'' = JNull"
    by (simp_all add: waitingMessage_def)
  ultimately show ?thesis using k by auto
qed

theorem rag_waiting_message_first_witness:
  "valid demo_body
   \<and> 0 \<le> randoms demo_env 0
   \<and> randoms demo_env 0 < 1
   \<and> hd (body (rag_chat_completions demo_env demo_body init_state))
       \<in> set (map (\<lambda>phrase. chunk_event (waitingMessage (JStr phrase))) waitingMessages)"
proof -
  have r: "0 \<le> randoms demo_env 0" "randoms demo_env 0 < 1"
    by (simp_all add: demo_env_def)
  obtain k where "k < 3"
    "hd (body (rag_chat_completions demo_env demo_body init_state))
       = chunk_event (waitingMessage (JStr (waitingMessages ! k)))"
    using rag_waiting_message_first [OF valid_bodies(1) r] by blast
  then show ?thesis using r valid_bodies(1) by (simp add: length_waitingMessages)
qed

text \<open>
  C6. For every context and every message list \<open>ms\<close>, \<^verbatim>\<open>refactMessages\<close> returns one new
  message with the role \<^verbatim>\<open>system\<close>, whose content embeds the context, followed by \<open>ms\<close>
  itself: nothing of \<open>ms\<close> is removed, merged or changed. This list is what
  \<^verbatim>\<open>/rag/chat/completions\<close> hands to the upstream call.
\<close>

theorem rag_messages_prepended:
  "refactMessages context (JArr ms) = Inr (context_message context # ms)
   \<and> member (context_message context) ''role'' = JStr ''system''
   \<and> member (context_message context) ''content''
       = JStr (''You have access to the following knowledge: '' @ context
               @ ''. Answer questions using this data.'')
   \<and> (valid b \<and> field b ''messages'' = JArr ms \<longrightarrow>
        map p_messages (created (log (rag_chat_completions e b init_state)))
          = [JArr (context_message (performRagRetrieval (JArr ms)) # ms)])"
proof -
  have r: "refactMessages c (JArr ms) = Inr (context_message c # ms)" for c
    by (simp add: refactMessages_def spread_def)
  have "map p_messages (created (log (rag_chat_completions e b init_state)))
          = [JArr (context_message (performRagRetrieval (JArr ms)) # ms)]"
    if v: "valid b" and m: "field b ''messages'' = JArr ms"
    by (simp add: rag_completions_valid [OF v] Let_def m r created_relay res_write_def
        set_sse_headers_simps init_state_simps rag_request_def make_params_def)
  then show ?thesis using r by (simp add: context_message_def)
qed

theorem rag_messages_prepended_witness:
  "valid demo_body
   \<and> field demo_body ''messages'' = JArr demo_messages
   \<and> map p_messages (created (log (rag_chat_completions demo_env demo_body init_state)))
       = [JArr (context_message ''This is relevant content retrieved from the knowledge base.''
                # demo_messages)]"
  using rag_messages_prepended [of _ demo_messages demo_body demo_env] valid_bodies(1)
  by (simp add: demo_body_def field_def performRagRetrieval_def)






text \<open>
  C9, as amended. On a valid request \<^verbatim>\<open>/chat/completions\<close> makes exactly one upstream
  call. It receives the model of the request (\<^verbatim>\<open>gpt-4o-mini\<close> when absent), its messages and
  its \<^verbatim>\<open>response_format\<close>, and a streaming flag that is true. \<^verbatim>\<open>tools\<close> is passed when
  the request's \<^verbatim>\<open>tools\<close> is truthy, which every array is, the empty one too, and is
  omitted otherwise; \<^verbatim>\<open>tool_choice\<close> is passed when \<^verbatim>\<open>tools\<close> and \<^verbatim>\<open>tool_choice\<close> are
  both truthy, and is omitted otherwise.
\<close>

theorem chat_upstream_params:
  assumes "valid b"
  shows "created (log (chat_completions e b init_state)) = [chat_request b]
       \<and> p_model (chat_request b) = dflt (field b ''model'') (JStr ''gpt-4o-mini'')
       \<and> p_messages (chat_request b) = field b ''messages''
       \<and> p_response_format (chat_request b) = field b ''response_format''
       \<and> p_stream (chat_request b) = True
       \<and> p_tools (chat_request b)
           = (if truthy (field b ''tools'') then field b ''tools'' else JUndefined)
       \<and> p_tool_choice (chat_request b)
           = (if truthy (field b ''tools'') \<and> truthy (field b ''tool_choice'')
              then field b ''tool_choice'' else JUndefined)"
  using assms
  by (simp add: chat_completions_valid created_relay set_sse_headers_simps init_state_simps
      chat_request_def make_params_def)

theorem chat_upstream_params_witness:
  "valid empty_tools_body
   \<and> created (log (chat_completions demo_env empty_tools_body init_state))
      = [\<lparr>p_model = JStr ''gpt-4o-mini'', p_messages = JArr demo_messages, p_tools = JArr [],
          p_tool_choice = JUndefined, p_response_format = JUndefined, p_stream = True\<rparr>]"
proof -
  have v: "valid empty_tools_body"
    by (simp add: valid_def empty_tools_body_def field_def dflt_def)
  show ?thesis
    using chat_upstream_params [OF v, of demo_env] v
    by (simp add: chat_request_def make_params_def empty_tools_body_def field_def dflt_def)
qed

text \<open>
  The claim as stated fails: a request whose \<^verbatim>\<open>tools\<close> is the empty array has that empty
  array passed to the upstream call.
\<close>

theorem empty_tools_passed_through:
  "valid empty_tools_body
   \<and> field empty_tools_body ''tools'' = JArr []
   \<and> map p_tools (created (log (chat_completions demo_env empty_tools_body init_state))) = [JArr []]"
proof -
  have v: "valid empty_tools_body"
    by (simp add: valid_def empty_tools_body_def field_def dflt_def)
  then show ?thesis
    by (simp add: chat_completions_valid created_relay set_sse_headers_simps init_state_simps
      chat_request_def make_params_def empty_tools_body_def field_def)
qed

text \<open>
  C10, as amended. A request whose body has a \<^verbatim>\<open>messages\<close> field with a truthy value
  (every array and object, a string that is not empty, a number that is not zero,
  \<^verbatim>\<open>true\<close>) and no \<^verbatim>\<open>stream\<close> field passes validation on the three endpoints:
  \<^verbatim>\<open>stream\<close> defaults to true and no endpoint answers 400. \<^verbatim>\<open>/chat/completions\<close> goes on
  to its upstream call, and its answer is an event stream ended by the sentinel unless the
  upstream fails before the first chunk; \<^verbatim>\<open>/rag/chat/completions\<close> and
  \<^verbatim>\<open>/audio/chat/completions\<close> always answer with an event stream ended by the sentinel.
\<close>

theorem stream_defaults_to_true:
  assumes "truthy (field b ''messages'')" and "b ''stream'' = None"
  shows "valid b
       \<and> created (log (chat_completions e b init_state)) = [chat_request b]
       \<and> statusCode (chat_completions e b init_state) \<noteq> 400
       \<and> \<not> rejected (chat_completions e b init_state)
       \<and> (chat_failure e b = None \<or> chat_forwarded e b \<noteq> [] \<longrightarrow>
            sse_open (chat_completions e b init_state))
       \<and> sse_open (rag_chat_completions e b init_state)
       \<and> (\<exists>s. audio_chat_completions e b init_state = Some s \<and> sse_open s)"
proof -
  have v: "valid b" using assms by (simp add: valid_def field_def dflt_def)
  let ?s0 = "set_sse_headers init_state"
  have s0: "statusCode ?s0 = 200" "headers ?s0 ''Content-Type'' = Some ''text/event-stream''"
    "headers ?s0 ''Cache-Control'' = Some ''no-cache''" "headers ?s0 ''Connection'' = Some ''keep-alive''"
    by (simp_all add: set_sse_headers_simps init_state_simps)
  have run: "chat_completions e b init_state = relay e (chat_request b) ?s0"
    by (rule chat_completions_valid [OF v])
  have c1: "created (log (chat_completions e b init_state)) = [chat_request b]"
    by (simp add: run created_relay set_sse_headers_simps init_state_simps)
  have c2: "statusCode (chat_completions e b init_state) \<noteq> 400"
    using not_rejected_relay [of e "chat_request b" ?s0] s0 by (auto simp add: run)
  then have c3: "\<not> rejected (chat_completions e b init_state)"
    by (simp add: rejected_def)
  have c4: "sse_open (chat_completions e b init_state)"
    if "chat_failure e b = None \<or> chat_forwarded e b \<noteq> []"
    unfolding run using s0 chat_outcome_ok [OF that] by (intro relay_sse_open) simp_all
  let ?s3 = "res_write (chunk_event (waitingMessage (js_index waitingMessages \<lfloor>randoms e 0 * 3\<rfloor>)))
                 (?s0\<lparr>n_rand := 1\<rparr>)"
  let ?s4 = "?s3\<lparr>log := log ?s3 @ [Retrieved (field b ''messages'')]\<rparr>"
  have s4: "statusCode ?s4 = 200" "headers ?s4 ''Content-Type'' = Some ''text/event-stream''"
    "headers ?s4 ''Cache-Control'' = Some ''no-cache''" "headers ?s4 ''Connection'' = Some ''keep-alive''"
    "headersSent ?s4"
    by (simp_all add: res_write_def set_sse_headers_simps init_state_simps)
  have r: "sse_open (rag_chat_completions e b init_state)"
  proof (cases "refactMessages (performRagRetrieval (field b ''messages'')) (field b ''messages'')")
    case (Inl err)
    have "sse_open (handler_catch err ?s4)"
      using s4(5,1-4) by (rule sse_open_catch)
    then show ?thesis by (simp add: rag_completions_valid [OF v] Let_def Inl)
  next
    case (Inr ragMessages)
    have "sse_open (relay e (rag_request b ragMessages) ?s4)"
      using s4 by (intro relay_sse_open) simp_all
    then show ?thesis by (simp add: rag_completions_valid [OF v] Let_def Inr)
  qed
  have a: "\<exists>s. audio_chat_completions e b init_state = Some s \<and> sse_open s"
    by (simp add: audio_completions_valid [OF v] sse_open_audio audio_fallback_simps
        audio_stream_simps del: upt_Suc split: sum.splits)
  show ?thesis using v c1 c2 c3 c4 r a by blast
qed

theorem stream_defaults_to_true_witness:
  "truthy (field no_stream_body ''messages'')
   \<and> no_stream_body ''stream'' = None
   \<and> chat_failure demo_env no_stream_body = None
   \<and> valid no_stream_body
   \<and> sse_open (chat_completions demo_env no_stream_body init_state)
   \<and> sse_open (rag_chat_completions demo_env no_stream_body init_state)
   \<and> audio_chat_completions demo_env no_stream_body init_state \<noteq> None"
proof -
  have h: "truthy (field no_stream_body ''messages'')" "no_stream_body ''stream'' = None"
    by (simp_all add: no_stream_body_def field_def)
  have f: "chat_failure demo_env no_stream_body = None"
    by (simp add: chat_failure_def demo_env_def)
  show ?thesis using stream_defaults_to_true [OF h, of demo_env] h f by auto
qed

text \<open>
  The claim as stated fails: a body whose \<^verbatim>\<open>messages\<close> field holds \<^verbatim>\<open>null\<close>, without a
  \<^verbatim>\<open>stream\<close> field, contains a \<^verbatim>\<open>messages\<close> field, and the test \<^verbatim>\<open>!messages\<close> answers it
  with status 400 on the three endpoints.
\<close>

theorem null_messages_rejected:
  "null_messages_body ''messages'' = Some JNull
   \<and> null_messages_body ''stream'' = None
   \<and> statusCode (chat_completions demo_env null_messages_body init_state) = 400
   \<and> rejected (chat_completions demo_env null_messages_body init_state)
   \<and> rejected (rag_chat_completions demo_env null_messages_body init_state)
   \<and> map_option statusCode (audio_chat_completions demo_env null_messages_body init_state) = Some 400
   \<and> \<not> valid null_messages_body"
proof -
  have m: "field null_messages_body ''messages'' = JNull"
    by (simp add: null_messages_body_def field_def)
  have r: "rejected (reject ''Missing messages in request body'' init_state)"
    by (rule rejected_reject) simp
  then have "statusCode (reject ''Missing messages in request body'' init_state) = 400"
    by (simp add: rejected_def)
  moreover have "null_messages_body ''messages'' = Some JNull"
    "null_messages_body ''stream'' = None"
    by (simp_all add: null_messages_body_def)
  ultimately show ?thesis using r
    by (simp add: chat_completions_def rag_chat_completions_def audio_chat_completions_def
        Let_def m valid_def)
qed

end
